theory Spec2Isabelle
  imports Complex_Main
begin

section \<open>The AKAS backend: shared data\<close>

text \<open>
  The backend keeps its state in module globals and delegates document loading, text
  splitting, embedding, vector search and answer generation to libraries. The globals
  become records that every handler takes and returns; every library call becomes a
  function argument of the handler that makes the call, returning \<open>Inl msg\<close> where the
  call raises an exception whose \<open>str\<close> is \<open>msg\<close>.
\<close>

datatype exn = HTTPException nat string | PyException string | RequestValidationError "string list"

text \<open>A langchain \<open>Document\<close>: its text and its metadata dictionary.\<close>

record document =
  page_content :: string
  metadata :: "(string \<times> string) list"

text \<open>Python's \<open>xs[-n:]\<close> for a positive \<open>n\<close>.\<close>

definition lastn :: "nat \<Rightarrow> 'a list \<Rightarrow> 'a list" where
  "lastn n xs = drop (length xs - n) xs"

text \<open>
  The values a handler draws from its surroundings while it runs: \<open>time.time()\<close> or
  \<open>datetime.now()\<close> at entry and after the pipeline call, \<open>uuid.uuid4()\<close>, and the ISO
  timestamp. Times are real numbers; no property below depends on rounding.
\<close>

record ambient =
  amb_start :: real
  amb_end :: real
  amb_uuid :: string
  amb_now :: string
  amb_now2 :: string

section \<open>rag\_pipeline.py\<close>

datatype llm = ChatOpenAI int string | ChatAnthropic int string | OpenAI int

text \<open>
  What \<open>vector_store.as_retriever(search_type=..., search_kwargs={"k": k})\<close> records:
  the store, the search type and the \<open>k\<close> entry of \<open>search_kwargs\<close>, absent when
  \<open>as_retriever()\<close> is called with no argument.
\<close>

record 'vs retriever =
  store :: 'vs
  search_type :: string
  search_kwargs_k :: "int option"

record 'vs RetrievalQA =
  chain_llm :: llm
  chain_retriever :: "'vs retriever"
  return_source_documents :: bool


definition get_qa_chain :: "'vs \<Rightarrow> 'vs RetrievalQA" where
  "get_qa_chain vs =
     (let retriever = \<lparr>store = vs, search_type = ''similarity'', search_kwargs_k = None\<rparr>;
          llm = OpenAI 0
      in \<lparr>chain_llm = llm, chain_retriever = retriever, return_source_documents = False\<rparr>)"

section \<open>main.py\<close>

text \<open>
  The globals \<open>vector_store\<close> and \<open>qa_chain\<close>, and the \<open>docs\<close> directory the ingest
  endpoint writes to: its files in listing order, each with its bytes.
\<close>

record 'vs main_state =
  docs_dir :: "(string \<times> string) list"
  vector_store :: "'vs option"
  qa_chain :: "'vs RetrievalQA option"

definition main_init :: "'vs main_state" where
  "main_init = \<lparr>docs_dir = [], vector_store = None, qa_chain = None\<rparr>"

text \<open>The body of a response of \<open>/query/\<close>: \<open>{"error": ...}\<close> or \<open>{"answer": ...}\<close>.\<close>

datatype query_reply = Error_reply string | Answer_reply string

text \<open>
  \<open>query\<close>: \<open>run chain q\<close> is \<open>qa_chain.run(q)\<close>. An exception of the chain is not caught.
\<close>

definition query ::
  "('vs RetrievalQA \<Rightarrow> string \<Rightarrow> string + string) \<Rightarrow> string \<Rightarrow>
   ('vs, 'z) main_state_scheme \<Rightarrow> (exn + query_reply) \<times> ('vs, 'z) main_state_scheme" where
  "query run q st =
     (case qa_chain st of
        None \<Rightarrow> (Inr (Error_reply ''No data ingested yet.''), st)
      | Some chain \<Rightarrow>
          (case run chain q of
             Inl e \<Rightarrow> (Inl (PyException e), st)
           | Inr answer \<Rightarrow> (Inr (Answer_reply answer), st)))"

section \<open>main\_v2.py\<close>

record QueryRequest_v2 =
  question :: string
  llm_provider :: "string option"
  search_type_v2 :: "string option"
  req_k :: "int option"

record QueryResponse_v2 =
  answer :: string
  sources_v2 :: "(string \<times> string) list list"
  confidence :: real
  processing_time_v2 :: real
  query_id :: string

record query_log =
  log_query_id :: string
  log_question :: string
  log_answer :: string
  log_llm_provider :: "string option"
  log_processing_time :: real
  log_timestamp :: string

record feedback_entry =
  fe_feedback_id :: string
  fe_query_id :: string
  fe_rating :: int
  fe_comment :: "string option"
  fe_timestamp :: string

record 'vs v2_state = "'vs main_state" +
  query_logs :: "query_log list"
  feedback_data_v2 :: "feedback_entry list"

definition v2_init :: "'vs v2_state" where
  "v2_init = \<lparr>docs_dir = [], vector_store = None, qa_chain = None,
              query_logs = [], feedback_data_v2 = []\<rparr>"

text \<open>The dictionary \<open>query_log\<close> that \<open>enhanced_query\<close> appends for an answered query.\<close>

definition query_log_of :: "ambient \<Rightarrow> QueryRequest_v2 \<Rightarrow> string \<Rightarrow> query_log" where
  "query_log_of amb request result =
     \<lparr>log_query_id = amb_uuid amb, log_question = question request, log_answer = result,
      log_llm_provider = llm_provider request,
      log_processing_time = amb_end amb - amb_start amb, log_timestamp = amb_now amb\<rparr>"

text \<open>
  \<open>enhanced_query\<close>. The readiness check is outside the \<open>try\<close>, so its 400 reaches the
  caller; an exception of \<open>qa_chain.run\<close> is caught and raised again as a 500. The
  request's \<open>k\<close>, \<open>search_type\<close> and \<open>llm_provider\<close> are not passed to the chain.
\<close>

definition enhanced_query ::
  "('vs RetrievalQA \<Rightarrow> string \<Rightarrow> string + string) \<Rightarrow> ambient \<Rightarrow> QueryRequest_v2 \<Rightarrow>
   'vs v2_state \<Rightarrow> (exn + QueryResponse_v2) \<times> 'vs v2_state" where
  "enhanced_query run amb request st =
     (case qa_chain st of
        None \<Rightarrow>
          (Inl (HTTPException 400 ''No data ingested yet. Please upload documents first.''), st)
      | Some chain \<Rightarrow>
          (case run chain (question request) of
             Inl e \<Rightarrow> (Inl (HTTPException 500 (''Query error: '' @ e)), st)
           | Inr result \<Rightarrow>
               (let processing_time = amb_end amb - amb_start amb;
                    logs = query_logs st @ [query_log_of amb request result];
                    logs' = (if length logs > 100 then lastn 100 logs else logs)
                in (Inr \<lparr>answer = result, sources_v2 = [], confidence = 85 / 100,
                         processing_time_v2 = processing_time, query_id = amb_uuid amb\<rparr>,
                    st\<lparr>query_logs := logs'\<rparr>))))"

text \<open>The \<open>/query/\<close> endpoint of main\_v2.py, kept for the first version's clients.\<close>

definition query_v2 ::
  "('vs RetrievalQA \<Rightarrow> string \<Rightarrow> string + string) \<Rightarrow> ambient \<Rightarrow> string \<Rightarrow>
   'vs v2_state \<Rightarrow> (exn + query_reply) \<times> 'vs v2_state" where
  "query_v2 run amb q st =
     (let request = \<lparr>question = q, llm_provider = Some ''openai'',
                     search_type_v2 = Some ''similarity'', req_k = Some 4\<rparr>
      in case enhanced_query run amb request st of
           (Inl e, st') \<Rightarrow> (Inl e, st')
         | (Inr result, st') \<Rightarrow> (Inr (Answer_reply (answer result)), st'))"

text \<open>
  \<open>submit_feedback\<close> of main\_v2.py. \<open>UserFeedback\<close> declares \<open>rating: int  # 1-5\<close> with
  no constraint, so the handler receives every integer.
\<close>

record UserFeedback =
  uf_query_id :: string
  uf_rating :: int
  uf_comment :: "string option"

definition submit_feedback_v2 ::
  "ambient \<Rightarrow> UserFeedback \<Rightarrow> 'vs v2_state \<Rightarrow> (string \<times> string) \<times> 'vs v2_state" where
  "submit_feedback_v2 amb feedback st =
     (let feedback_entry = \<lparr>fe_feedback_id = amb_uuid amb, fe_query_id = uf_query_id feedback,
                              fe_rating = uf_rating feedback, fe_comment = uf_comment feedback,
                              fe_timestamp = amb_now amb\<rparr>;
          data = feedback_data_v2 st @ [feedback_entry];
          data' = (if length data > 100 then lastn 100 data else data)
      in ((''feedback_received'', fe_feedback_id feedback_entry),
          st\<lparr>feedback_data_v2 := data'\<rparr>))"

section \<open>enhanced\_main.py\<close>

record QueryRequest =
  rq_query :: string
  rq_max_results :: "int option"
  rq_include_metadata :: "bool option"

record QueryResponse =
  qr_query :: string
  qr_response :: string
  qr_sources :: "(string \<times> string) list list"
  qr_processing_time :: real
  qr_timestamp :: string

record FeedbackRequest =
  fb_query :: string
  fb_response :: string
  fb_rating :: int
  fb_comment :: "string option"

record query_record =
  rec_query :: string
  rec_response :: string
  rec_timestamp :: string
  rec_processing_time :: real
  rec_user :: "string option"

record feedback_record =
  fr_query :: string
  fr_response :: string
  fr_rating :: int
  fr_comment :: "string option"
  fr_timestamp :: string
  fr_user :: "string option"

record system_stats_t =
  total_documents :: int
  total_queries :: int
  total_response_time :: real
  startup_time :: string

text \<open>
  The globals of enhanced\_main.py. \<open>'p\<close> is the class \<open>RAGPipeline\<close> and \<open>'d\<close> the class
  \<open>DocumentProcessor\<close>, which the module imports and no source file defines.
\<close>

record ('p, 'd) em_state =
  rag_pipeline :: "'p option"
  doc_processor :: "'d option"
  query_history :: "query_record list"
  feedback_data :: "feedback_record list"
  system_stats :: system_stats_t

definition em_init :: "string \<Rightarrow> ('p, 'd) em_state" where
  "em_init now =
     \<lparr>rag_pipeline = None, doc_processor = None, query_history = [], feedback_data = [],
      system_stats = \<lparr>total_documents = 0, total_queries = 0, total_response_time = 0,
                      startup_time = now\<rparr>\<rparr>"

text \<open>The dictionary \<open>rag_pipeline.query\<close> returns, read with \<open>result.get\<close>.\<close>

record rag_result =
  rr_response :: "string option"
  rr_sources :: "(string \<times> string) list list option"

definition dict_get :: "'a option \<Rightarrow> 'a \<Rightarrow> 'a" where
  "dict_get v d = (case v of None \<Rightarrow> d | Some x \<Rightarrow> x)"

definition query_record_of ::
  "ambient \<Rightarrow> QueryRequest \<Rightarrow> string option \<Rightarrow> rag_result \<Rightarrow> query_record" where
  "query_record_of amb request current_user result =
     \<lparr>rec_query = rq_query request, rec_response = dict_get (rr_response result) [],
      rec_timestamp = amb_now amb, rec_processing_time = amb_end amb - amb_start amb,
      rec_user = current_user\<rparr>"

text \<open>
  \<open>process_query\<close>. Everything is inside one \<open>try\<close> whose handler logs any exception,
  the 503 of the readiness check included, and raises a 500 with \<open>str(e)\<close> in its detail;
  \<open>http_str\<close> is \<open>str\<close> of an \<open>HTTPException\<close>, \<open>rag_query p q m\<close> is
  \<open>p.query(q, max_results=m)\<close>.
\<close>

definition process_query ::
  "(nat \<Rightarrow> string \<Rightarrow> string) \<Rightarrow> ('p \<Rightarrow> string \<Rightarrow> int option \<Rightarrow> string + rag_result) \<Rightarrow>
   ambient \<Rightarrow> QueryRequest \<Rightarrow> string option \<Rightarrow> ('p, 'd) em_state \<Rightarrow>
   (exn + QueryResponse) \<times> ('p, 'd) em_state" where
  "process_query http_str rag_query amb request current_user st =
     (case rag_pipeline st of
        None \<Rightarrow>
          (Inl (HTTPException 500
                  (''Query failed: '' @ http_str 503 ''RAG pipeline not initialized'')), st)
      | Some p \<Rightarrow>
          (case rag_query p (rq_query request) (rq_max_results request) of
             Inl e \<Rightarrow> (Inl (HTTPException 500 (''Query failed: '' @ e)), st)
           | Inr result \<Rightarrow>
               (let processing_time = amb_end amb - amb_start amb;
                    stats = (system_stats st)
                      \<lparr>total_queries := total_queries (system_stats st) + 1,
                       total_response_time :=
                         total_response_time (system_stats st) + processing_time\<rparr>;
                    history = query_history st @ [query_record_of amb request current_user result];
                    history' = (if length history > 100 then tl history else history)
                in (Inr \<lparr>qr_query = rq_query request,
                         qr_response = dict_get (rr_response result) ''No response generated'',
                         qr_sources = dict_get (rr_sources result) [],
                         qr_processing_time = processing_time,
                         qr_timestamp = amb_now2 amb\<rparr>,
                    st\<lparr>system_stats := stats, query_history := history'\<rparr>))))"

text \<open>\<open>submit_feedback\<close> of enhanced\_main.py, called with a validated \<open>FeedbackRequest\<close>.\<close>

definition submit_feedback ::
  "ambient \<Rightarrow> FeedbackRequest \<Rightarrow> string option \<Rightarrow> ('p, 'd) em_state \<Rightarrow>
   (exn + string) \<times> ('p, 'd) em_state" where
  "submit_feedback amb feedback current_user st =
     (let feedback_record = \<lparr>fr_query = fb_query feedback, fr_response = fb_response feedback,
                               fr_rating = fb_rating feedback, fr_comment = fb_comment feedback,
                               fr_timestamp = amb_now amb, fr_user = current_user\<rparr>;
          data = feedback_data st @ [feedback_record];
          data' = (if length data > 1000 then tl data else data)
      in (Inr ''Feedback submitted successfully'', st\<lparr>feedback_data := data'\<rparr>))"

section \<open>Sequences of queries\<close>

text \<open>One call of a query handler after another, each on the state the previous one left.\<close>

fun queries ::
  "('vs RetrievalQA \<Rightarrow> string \<Rightarrow> string + string) \<Rightarrow> string list \<Rightarrow>
   ('vs, 'z) main_state_scheme \<Rightarrow> (exn + query_reply) list \<times> ('vs, 'z) main_state_scheme" where
  "queries run [] st = ([], st)"
| "queries run (q # qs) st =
     (case query run q st of
        (r, st') \<Rightarrow> (case queries run qs st' of (rs, st'') \<Rightarrow> (r # rs, st'')))"

fun enhanced_queries ::
  "('vs RetrievalQA \<Rightarrow> string \<Rightarrow> string + string) \<Rightarrow> (ambient \<times> QueryRequest_v2) list \<Rightarrow>
   'vs v2_state \<Rightarrow> (exn + QueryResponse_v2) list \<times> 'vs v2_state" where
  "enhanced_queries run [] st = ([], st)"
| "enhanced_queries run ((amb, request) # rest) st =
     (case enhanced_query run amb request st of
        (r, st') \<Rightarrow> (case enhanced_queries run rest st' of (rs, st'') \<Rightarrow> (r # rs, st'')))"

fun process_queries ::
  "(nat \<Rightarrow> string \<Rightarrow> string) \<Rightarrow> ('p \<Rightarrow> string \<Rightarrow> int option \<Rightarrow> string + rag_result) \<Rightarrow>
   (ambient \<times> QueryRequest \<times> string option) list \<Rightarrow> ('p, 'd) em_state \<Rightarrow>
   (exn + QueryResponse) list \<times> ('p, 'd) em_state" where
  "process_queries http_str rag_query [] st = ([], st)"
| "process_queries http_str rag_query ((amb, request, user) # rest) st =
     (case process_query http_str rag_query amb request user st of
        (r, st') \<Rightarrow>
          (case process_queries http_str rag_query rest st' of (rs, st'') \<Rightarrow> (r # rs, st'')))"

text \<open>
  Every record the handlers append over such a sequence, in order and with nothing
  evicted: one per answered query. The pipeline a query runs against is the one of the
  starting state, which no query replaces.
\<close>

fun answered_logs ::
  "('vs RetrievalQA \<Rightarrow> string \<Rightarrow> string + string) \<Rightarrow> 'vs RetrievalQA option \<Rightarrow>
   (ambient \<times> QueryRequest_v2) list \<Rightarrow> query_log list" where
  "answered_logs run chain [] = []"
| "answered_logs run chain ((amb, request) # rest) =
     (case chain of
        None \<Rightarrow> []
      | Some c \<Rightarrow> (case run c (question request) of
                    Inl e \<Rightarrow> []
                  | Inr result \<Rightarrow> [query_log_of amb request result]))
     @ answered_logs run chain rest"

fun answered_records ::
  "('p \<Rightarrow> string \<Rightarrow> int option \<Rightarrow> string + rag_result) \<Rightarrow> 'p option \<Rightarrow>
   (ambient \<times> QueryRequest \<times> string option) list \<Rightarrow> query_record list" where
  "answered_records rag_query pipeline [] = []"
| "answered_records rag_query pipeline ((amb, request, user) # rest) =
     (case pipeline of
        None \<Rightarrow> []
      | Some p \<Rightarrow> (case rag_query p (rq_query request) (rq_max_results request) of
                    Inl e \<Rightarrow> []
                  | Inr result \<Rightarrow> [query_record_of amb request user result]))
     @ answered_records rag_query pipeline rest"

section \<open>Request validation\<close>

text \<open>
  FastAPI validates the JSON body against the handler's pydantic model before it calls
  the handler, and answers 422 with the failing fields when validation fails. A body
  field is absent, \<open>null\<close> or a value of the declared type.
\<close>

datatype 'a field = Omitted | Null | Given 'a

text \<open>A field declared \<open>name: T\<close> or \<open>name: T = Field(...)\<close>: it must be present.\<close>

definition required :: "string \<Rightarrow> 'a field \<Rightarrow> string + 'a" where
  "required name v = (case v of Given x \<Rightarrow> Inr x | Omitted \<Rightarrow> Inl name | Null \<Rightarrow> Inl name)"

text \<open>
  A field declared \<open>name: Optional[T] = d\<close>: an absent field takes the default, and
  \<open>null\<close> is a valid value of \<open>Optional[T]\<close>, on which no constraint is checked.
\<close>

definition optional :: "'a option \<Rightarrow> 'a field \<Rightarrow> 'a option" where
  "optional d v = (case v of Omitted \<Rightarrow> d | Null \<Rightarrow> None | Given x \<Rightarrow> Some x)"

text \<open>The constraints \<open>ge\<close> and \<open>le\<close>, and \<open>min_length\<close> and \<open>max_length\<close>, of \<open>Field\<close>.\<close>

definition ge_le :: "string \<Rightarrow> int \<Rightarrow> int \<Rightarrow> int \<Rightarrow> string + int" where
  "ge_le name lo hi n = (if lo \<le> n \<and> n \<le> hi then Inr n else Inl name)"

definition length_between :: "string \<Rightarrow> nat \<Rightarrow> nat \<Rightarrow> string \<Rightarrow> string + string" where
  "length_between name lo hi s = (if lo \<le> length s \<and> length s \<le> hi then Inr s else Inl name)"

definition failed :: "string + 'a \<Rightarrow> string list" where
  "failed r = (case r of Inl name \<Rightarrow> [name] | Inr x \<Rightarrow> [])"

definition bind_field :: "string + 'a \<Rightarrow> ('a \<Rightarrow> string + 'b) \<Rightarrow> string + 'b" where
  "bind_field r f = (case r of Inl name \<Rightarrow> Inl name | Inr x \<Rightarrow> f x)"

subsection \<open>The models of enhanced\_main.py\<close>

record raw_QueryRequest =
  raw_query :: "string field"
  raw_max_results :: "int field"
  raw_include_metadata :: "bool field"

text \<open>\<open>max_results: Optional[int] = Field(default=5, ge=1, le=20)\<close>\<close>

definition max_results_field :: "int field \<Rightarrow> string + int option" where
  "max_results_field v =
     (case optional (Some 5) v of
        None \<Rightarrow> Inr None
      | Some n \<Rightarrow> map_sum id Some (ge_le ''max_results'' 1 20 n))"

definition validate_QueryRequest :: "raw_QueryRequest \<Rightarrow> exn + QueryRequest" where
  "validate_QueryRequest raw =
     (let q = bind_field (required ''query'' (raw_query raw)) (length_between ''query'' 1 1000);
          m = max_results_field (raw_max_results raw);
          i = optional (Some False) (raw_include_metadata raw)
      in case (q, m) of
           (Inr q', Inr m') \<Rightarrow>
             Inr \<lparr>rq_query = q', rq_max_results = m', rq_include_metadata = i\<rparr>
         | _ \<Rightarrow> Inl (RequestValidationError (failed q @ failed m)))"

record raw_FeedbackRequest =
  raw_fb_query :: "string field"
  raw_fb_response :: "string field"
  raw_fb_rating :: "int field"
  raw_fb_comment :: "string field"

text \<open>\<open>rating: int = Field(..., ge=1, le=5)\<close>\<close>

definition validate_FeedbackRequest :: "raw_FeedbackRequest \<Rightarrow> exn + FeedbackRequest" where
  "validate_FeedbackRequest raw =
     (let q = required ''query'' (raw_fb_query raw);
          r = required ''response'' (raw_fb_response raw);
          n = bind_field (required ''rating'' (raw_fb_rating raw)) (ge_le ''rating'' 1 5);
          c = optional None (raw_fb_comment raw)
      in case (q, r, n) of
           (Inr q', Inr r', Inr n') \<Rightarrow>
             Inr \<lparr>fb_query = q', fb_response = r', fb_rating = n', fb_comment = c\<rparr>
         | _ \<Rightarrow> Inl (RequestValidationError (failed q @ failed r @ failed n)))"

text \<open>The routes \<open>POST /query\<close> and \<open>POST /feedback\<close>: validation, then the handler.\<close>

definition post_query ::
  "(nat \<Rightarrow> string \<Rightarrow> string) \<Rightarrow> ('p \<Rightarrow> string \<Rightarrow> int option \<Rightarrow> string + rag_result) \<Rightarrow>
   ambient \<Rightarrow> raw_QueryRequest \<Rightarrow> string option \<Rightarrow> ('p, 'd) em_state \<Rightarrow>
   (exn + QueryResponse) \<times> ('p, 'd) em_state" where
  "post_query http_str rag_query amb raw current_user st =
     (case validate_QueryRequest raw of
        Inl e \<Rightarrow> (Inl e, st)
      | Inr request \<Rightarrow> process_query http_str rag_query amb request current_user st)"

definition post_feedback ::
  "ambient \<Rightarrow> raw_FeedbackRequest \<Rightarrow> string option \<Rightarrow> ('p, 'd) em_state \<Rightarrow>
   (exn + string) \<times> ('p, 'd) em_state" where
  "post_feedback amb raw current_user st =
     (case validate_FeedbackRequest raw of
        Inl e \<Rightarrow> (Inl e, st)
      | Inr feedback \<Rightarrow> submit_feedback amb feedback current_user st)"

subsection \<open>The models of main\_v2.py\<close>

record raw_QueryRequest_v2 =
  raw_question :: "string field"
  raw_llm_provider :: "string field"
  raw_search_type :: "string field"
  raw_k :: "int field"

text \<open>
  \<open>question: str\<close>, \<open>llm_provider: Optional[str] = "openai"\<close>,
  \<open>search_type: Optional[str] = "similarity"\<close>, \<open>k: Optional[int] = 4\<close>
\<close>

definition validate_QueryRequest_v2 :: "raw_QueryRequest_v2 \<Rightarrow> exn + QueryRequest_v2" where
  "validate_QueryRequest_v2 raw =
     (case required ''question'' (raw_question raw) of
        Inl name \<Rightarrow> Inl (RequestValidationError [name])
      | Inr q \<Rightarrow>
          Inr \<lparr>question = q,
               llm_provider = optional (Some ''openai'') (raw_llm_provider raw),
               search_type_v2 = optional (Some ''similarity'') (raw_search_type raw),
               req_k = optional (Some 4) (raw_k raw)\<rparr>)"

record raw_UserFeedback =
  raw_uf_query_id :: "string field"
  raw_uf_rating :: "int field"
  raw_uf_comment :: "string field"

text \<open>\<open>query_id: str\<close>, \<open>rating: int  # 1-5\<close>, \<open>comment: Optional[str] = None\<close>\<close>

definition validate_UserFeedback :: "raw_UserFeedback \<Rightarrow> exn + UserFeedback" where
  "validate_UserFeedback raw =
     (let q = required ''query_id'' (raw_uf_query_id raw);
          n = required ''rating'' (raw_uf_rating raw);
          c = optional None (raw_uf_comment raw)
      in case (q, n) of
           (Inr q', Inr n') \<Rightarrow> Inr \<lparr>uf_query_id = q', uf_rating = n', uf_comment = c\<rparr>
         | _ \<Rightarrow> Inl (RequestValidationError (failed q @ failed n)))"

text \<open>The routes \<open>POST /v2/query/\<close> and \<open>POST /v2/feedback/\<close>.\<close>

definition post_v2_query ::
  "('vs RetrievalQA \<Rightarrow> string \<Rightarrow> string + string) \<Rightarrow> ambient \<Rightarrow> raw_QueryRequest_v2 \<Rightarrow>
   'vs v2_state \<Rightarrow> (exn + QueryResponse_v2) \<times> 'vs v2_state" where
  "post_v2_query run amb raw st =
     (case validate_QueryRequest_v2 raw of
        Inl e \<Rightarrow> (Inl e, st)
      | Inr request \<Rightarrow> enhanced_query run amb request st)"

definition post_v2_feedback ::
  "ambient \<Rightarrow> raw_UserFeedback \<Rightarrow> 'vs v2_state \<Rightarrow>
   (exn + string \<times> string) \<times> 'vs v2_state" where
  "post_v2_feedback amb raw st =
     (case validate_UserFeedback raw of
        Inl e \<Rightarrow> (Inl e, st)
      | Inr feedback \<Rightarrow>
          (case submit_feedback_v2 amb feedback st of (r, st') \<Rightarrow> (Inr r, st')))"

section \<open>enhanced\_rag\_pipeline.py\<close>

text \<open>The class \<open>EnhancedRAGPipeline\<close>; its \<open>embeddings\<close> field is used by library calls only.\<close>

record EnhancedRAGPipeline =
  pipeline_llm_provider :: string

definition get_llm :: "EnhancedRAGPipeline \<Rightarrow> llm" where
  "get_llm self =
     (if pipeline_llm_provider self = ''openai'' then ChatOpenAI 0 ''gpt-3.5-turbo''
      else if pipeline_llm_provider self = ''anthropic''
        then ChatAnthropic 0 ''claude-3-sonnet-20240229''
      else OpenAI 0)"

text \<open>
  \<open>load_vector_store\<close>. \<open>load_local loc\<close> is \<open>FAISS.load_local("./vector_store", ...)\<close>
  with \<open>loc\<close> what that location holds. The result is \<open>Inl\<close> for a raised exception and
  \<open>Inr None\<close> for a returned \<open>None\<close>; the bare \<open>except\<close> catches every exception.
\<close>

definition load_vector_store :: "('loc \<Rightarrow> string + 'vs) \<Rightarrow> 'loc \<Rightarrow> exn + 'vs option" where
  "load_vector_store load_local loc =
     (case load_local loc of Inr vs \<Rightarrow> Inr (Some vs) | Inl e \<Rightarrow> Inr None)"

text \<open>\<open>get_qa_chain\<close> of the class, with its defaults \<open>search_type="similarity"\<close>, \<open>k=4\<close>.\<close>

definition get_qa_chain_enhanced ::
  "EnhancedRAGPipeline \<Rightarrow> 'vs \<Rightarrow> string option \<Rightarrow> int option \<Rightarrow> 'vs RetrievalQA" where
  "get_qa_chain_enhanced self vs search_type_arg k_arg =
     (let retriever = \<lparr>store = vs, search_type = dict_get search_type_arg ''similarity'',
                        search_kwargs_k = Some (dict_get k_arg 4)\<rparr>;
          llm = get_llm self
      in \<lparr>chain_llm = llm, chain_retriever = retriever, return_source_documents = True\<rparr>)"

section \<open>The vector index of the specification\<close>

text \<open>
  The search itself is done by the FAISS and langchain libraries, of which the sources
  hold only the calls above.

  Modelled from the spec: the Embedding Record (section 3), a chunk with its embedding
  vector; a Vector Index is a list of them.
\<close>

record 'v embedding_record =
  er_chunk :: document
  er_vector :: 'v

text \<open>
  Modelled from the spec: the plain nearest-neighbour \<open>search\<close> of the Vector Index
  (section 4.3), which the libraries implement and no source file holds. It embeds the
  query text and returns the \<open>k\<close> nearest records with their scores, ordered by
  increasing distance.
\<close>

definition nearest ::
  "(string \<Rightarrow> 'v) \<Rightarrow> ('v \<Rightarrow> 'v \<Rightarrow> 'd::linorder) \<Rightarrow> 'v embedding_record list \<Rightarrow> string \<Rightarrow> int \<Rightarrow>
   ('v embedding_record \<times> 'd) list" where
  "nearest embedding distance index query_text k =
     take (nat k)
       (sort_key snd (map (\<lambda>r. (r, distance (embedding query_text) (er_vector r))) index))"

text \<open>
  Modelled from the spec: the diversity-aware variant of \<open>search\<close> (section 4.3), for
  which the spec fixes only that it selects records of the index one after another and
  returns at most \<open>k\<close> of them. \<open>score selected r\<close> is the policy's value of candidate
  \<open>r\<close> given the records already selected; the best candidate has the least value.
\<close>

fun diverse ::
  "('v embedding_record list \<Rightarrow> 'v embedding_record \<Rightarrow> 'd::linorder) \<Rightarrow> nat \<Rightarrow>
   'v embedding_record list \<Rightarrow> 'v embedding_record list \<Rightarrow> 'v embedding_record list" where
  "diverse score 0 selected candidates = []"
| "diverse score (Suc n) selected [] = []"
| "diverse score (Suc n) selected (c # cs) =
     (let best = arg_min_list (score selected) (c # cs)
      in best # diverse score n (selected @ [best]) (remove1 best (c # cs)))"

text \<open>
  Modelled from the spec: \<open>search(query_text, k, search_type)\<close>, where \<open>search_type\<close>
  selects plain nearest-neighbour search or the diversity-aware variant.
\<close>

definition search ::
  "(string \<Rightarrow> 'v) \<Rightarrow> ('v \<Rightarrow> 'v \<Rightarrow> 'd::linorder) \<Rightarrow>
   ('v \<Rightarrow> 'v embedding_record list \<Rightarrow> 'v embedding_record \<Rightarrow> 'd) \<Rightarrow>
   'v embedding_record list \<Rightarrow> string \<Rightarrow> int \<Rightarrow> string \<Rightarrow> ('v embedding_record \<times> 'd) list" where
  "search embedding distance score index query_text k search_type_arg =
     (if search_type_arg = ''similarity'' then nearest embedding distance index query_text k
      else map (\<lambda>r. (r, distance (embedding query_text) (er_vector r)))
             (diverse (score (embedding query_text)) (nat k) [] index))"

text \<open>
  Modelled from the spec: retrieval through a retriever, which searches its store with
  its own search type and \<open>k\<close>; \<open>default_k\<close> is the library's \<open>k\<close> for a retriever made
  by \<open>as_retriever()\<close> with no argument.
\<close>

definition retrieve ::
  "(string \<Rightarrow> 'v) \<Rightarrow> ('v \<Rightarrow> 'v \<Rightarrow> 'd::linorder) \<Rightarrow>
   ('v \<Rightarrow> 'v embedding_record list \<Rightarrow> 'v embedding_record \<Rightarrow> 'd) \<Rightarrow> int \<Rightarrow>
   'v embedding_record list retriever \<Rightarrow> string \<Rightarrow> ('v embedding_record \<times> 'd) list" where
  "retrieve embedding distance score default_k r query_text =
     search embedding distance score (store r) query_text
       (dict_get (search_kwargs_k r) default_k) (search_type r)"

section \<open>The chunk splitter of the specification\<close>

text \<open>Modelled from the spec: the configuration error of the error taxonomy (section 7).\<close>

datatype spec_error = ConfigurationError

text \<open>
  Modelled from the spec: the Chunk Splitter (sections 2 and 4.1), for which the sources
  only construct langchain's \<open>RecursiveCharacterTextSplitter\<close> with a chunk size and an
  overlap. It divides the text into overlapping fixed-size windows: each window holds
  \<open>chunk_size\<close> characters, the last one what is left, and each window after the first
  starts \<open>overlap\<close> characters before the end of its predecessor.
\<close>

function windows :: "nat \<Rightarrow> nat \<Rightarrow> string \<Rightarrow> string list" where
  "windows chunk_size overlap text =
     (if text = [] then []
      else if length text \<le> chunk_size \<or> chunk_size \<le> overlap then [text]
      else take chunk_size text # windows chunk_size overlap (drop (chunk_size - overlap) text))"
  by pat_completeness auto
termination
  by (relation "measure (\<lambda>(chunk_size, overlap, text). length text)") auto

declare windows.simps [simp del]

text \<open>
  Modelled from the spec: \<open>split(text, chunk_size, overlap)\<close>; both parameters are
  positive and \<open>overlap >= chunk_size\<close> is a configuration error.
\<close>

definition split :: "string \<Rightarrow> nat \<Rightarrow> nat \<Rightarrow> spec_error + string list" where
  "split text chunk_size overlap =
     (if 0 < overlap \<and> overlap < chunk_size then Inr (windows chunk_size overlap text)
      else Inl ConfigurationError)"

text \<open>Concatenating chunks with the overlaps removed: the first chunk whole, then each
  later chunk without its first \<open>overlap\<close> characters.\<close>

fun unsplit :: "nat \<Rightarrow> string list \<Rightarrow> string" where
  "unsplit overlap [] = []"
| "unsplit overlap (c # cs) = c @ concat (map (drop overlap) cs)"

text \<open>Each chunk after the first begins with the last \<open>overlap\<close> characters of its
  predecessor and goes on beyond them.\<close>

fun overlapping :: "nat \<Rightarrow> string list \<Rightarrow> bool" where
  "overlapping overlap (a # b # rest) =
     (overlap \<le> length a \<and> overlap < length b \<and>
      take overlap b = drop (length a - overlap) a \<and> overlapping overlap (b # rest))"
| "overlapping overlap chunks = True"

section \<open>Python helpers of the ingestion code\<close>

text \<open>\<open>str.endswith\<close> and \<open>str.lower\<close>; the latter on ASCII letters, other bytes unchanged.\<close>

definition endswith :: "string \<Rightarrow> string \<Rightarrow> bool" where
  "endswith s suffix =
     (length suffix \<le> length s \<and> drop (length s - length suffix) s = suffix)"

definition lower_char :: "char \<Rightarrow> char" where
  "lower_char c =
     (let n = (of_char c :: nat) in if 65 \<le> n \<and> n \<le> 90 then char_of (n + 32) else c)"

definition lower :: "string \<Rightarrow> string" where
  "lower s = map lower_char s"

text \<open>\<open>os.path.join\<close> of two components, on POSIX.\<close>

definition path_join :: "string \<Rightarrow> string \<Rightarrow> string" where
  "path_join a b =
     (if take 1 b = ''/'' then b
      else if a = [] \<or> endswith a ''/'' then a @ b
      else a @ ''/'' @ b)"

text \<open>
  A dictionary with its keys in insertion order: \<open>d[key] = v\<close> replaces the value of a
  key that is present and adds the key at the end otherwise. A directory is such a
  dictionary from file names to bytes, and writing a file is the same operation.
\<close>

fun dict_set :: "'k \<Rightarrow> 'v \<Rightarrow> ('k \<times> 'v) list \<Rightarrow> ('k \<times> 'v) list" where
  "dict_set key v [] = [(key, v)]"
| "dict_set key v ((key', v') # rest) =
     (if key' = key then (key, v) # rest else (key', v') # dict_set key v rest)"


section \<open>ingest.py\<close>

datatype loader =
  PyPDFLoader | TextLoader | UnstructuredWordDocumentLoader | UnstructuredExcelLoader
  | WebBaseLoader

text \<open>
  In what follows \<open>load l path bytes\<close> is \<open>l(path).load()\<close> on a file with these bytes, and
  \<open>splitter c o docs\<close> is
  \<open>RecursiveCharacterTextSplitter(chunk_size=c, chunk_overlap=o).split_documents(docs)\<close>.
  \<open>files\<close> is the listing of the directory, each name with the file's bytes.

  The loop of \<open>ingest_documents\<close>: only names ending in \<open>.pdf\<close> are loaded, and an
  exception of a loader is not caught.
\<close>

fun ingest_loop ::
  "(loader \<Rightarrow> string \<Rightarrow> string \<Rightarrow> string + document list) \<Rightarrow> string \<Rightarrow>
   (string \<times> string) list \<Rightarrow> document list \<Rightarrow> string + document list" where
  "ingest_loop load doc_dir [] docs = Inr docs"
| "ingest_loop load doc_dir ((fname, bytes) # rest) docs =
     (if endswith fname ''.pdf''
      then (case load PyPDFLoader (path_join doc_dir fname) bytes of
              Inl e \<Rightarrow> Inl e
            | Inr loaded \<Rightarrow> ingest_loop load doc_dir rest (docs @ loaded))
      else ingest_loop load doc_dir rest docs)"

definition ingest_documents ::
  "(loader \<Rightarrow> string \<Rightarrow> string \<Rightarrow> string + document list) \<Rightarrow>
   (nat \<Rightarrow> nat \<Rightarrow> document list \<Rightarrow> document list) \<Rightarrow> string \<Rightarrow>
   (string \<times> string) list \<Rightarrow> string + document list" where
  "ingest_documents load splitter doc_dir files =
     (case ingest_loop load doc_dir files [] of
        Inl e \<Rightarrow> Inl e
      | Inr docs \<Rightarrow> Inr (splitter 500 50 docs))"

section \<open>enhanced\_ingest.py\<close>

text \<open>The \<open>if\<close>/\<open>elif\<close> chain choosing a loader; \<open>None\<close> is the \<open>continue\<close> of the last branch.\<close>

definition loader_for :: "string \<Rightarrow> loader option" where
  "loader_for fname =
     (if endswith (lower fname) ''.pdf'' then Some PyPDFLoader
      else if endswith (lower fname) ''.txt'' then Some TextLoader
      else if endswith (lower fname) ''.docx'' then Some UnstructuredWordDocumentLoader
      else if endswith (lower fname) ''.xlsx'' then Some UnstructuredExcelLoader
      else None)"

text \<open>
  The loop of \<open>EnhancedDocumentIngestor.ingest_documents\<close>, with the documents loaded so
  far and the lines printed so far. An exception of a loader is caught, printed, and
  the loop goes on; an unsupported name is skipped and nothing is printed.
\<close>

fun enhanced_loop ::
  "(loader \<Rightarrow> string \<Rightarrow> string \<Rightarrow> string + document list) \<Rightarrow> string \<Rightarrow>
   (string \<times> string) list \<Rightarrow> document list \<Rightarrow> string list \<Rightarrow> document list \<times> string list" where
  "enhanced_loop load doc_dir [] docs printed = (docs, printed)"
| "enhanced_loop load doc_dir ((fname, bytes) # rest) docs printed =
     (case loader_for fname of
        None \<Rightarrow> enhanced_loop load doc_dir rest docs printed
      | Some l \<Rightarrow>
          (case load l (path_join doc_dir fname) bytes of
             Inl e \<Rightarrow>
               enhanced_loop load doc_dir rest docs
                 (printed @ [''Error loading '' @ fname @ '': '' @ e])
           | Inr documents \<Rightarrow> enhanced_loop load doc_dir rest (docs @ documents) printed))"

text \<open>
  The metadata loop: \<open>now i\<close> is \<open>str(datetime.now())\<close> at the \<open>i\<close>-th chunk, and
  \<open>splitext\<close> is \<open>os.path.splitext\<close>, of which the extension is taken.
\<close>

fun add_metadata ::
  "(nat \<Rightarrow> string) \<Rightarrow> (string \<Rightarrow> string \<times> string) \<Rightarrow> nat \<Rightarrow> document list \<Rightarrow> document list" where
  "add_metadata now splitext i [] = []"
| "add_metadata now splitext i (doc # rest) =
     doc\<lparr>metadata :=
           dict_set ''file_type''
             (snd (splitext (dict_get (map_of (metadata doc) ''source'') [])))
             (dict_set ''processed_at'' (now i) (metadata doc))\<rparr>
     # add_metadata now splitext (Suc i) rest"

text \<open>The documents it returns, and the lines it printed.\<close>

definition ingest_documents_enhanced ::
  "(loader \<Rightarrow> string \<Rightarrow> string \<Rightarrow> string + document list) \<Rightarrow>
   (nat \<Rightarrow> nat \<Rightarrow> document list \<Rightarrow> document list) \<Rightarrow> (nat \<Rightarrow> string) \<Rightarrow>
   (string \<Rightarrow> string \<times> string) \<Rightarrow> string \<Rightarrow> (string \<times> string) list \<Rightarrow>
   document list \<times> string list" where
  "ingest_documents_enhanced load splitter now splitext doc_dir files =
     (case enhanced_loop load doc_dir files [] [] of
        (docs, printed) \<Rightarrow>
          (add_metadata now splitext 0 (splitter 1000 200 docs), printed))"

section \<open>The ingest endpoints\<close>








definition readable ::
  "(loader \<Rightarrow> string \<Rightarrow> string \<Rightarrow> string + document list) \<Rightarrow> string \<Rightarrow>
   string \<times> string \<Rightarrow> bool" where
  "readable load doc_dir file =
     (case loader_for (fst file) of
        None \<Rightarrow> False
      | Some l \<Rightarrow> \<not> isl (load l (path_join doc_dir (fst file)) (snd file)))"

definition good_documents ::
  "(loader \<Rightarrow> string \<Rightarrow> string \<Rightarrow> string + document list) \<Rightarrow> string \<Rightarrow>
   (string \<times> string) list \<Rightarrow> document list" where
  "good_documents load doc_dir files =
     concat (map (\<lambda>(fname, bytes).
                    case loader_for fname of
                      None \<Rightarrow> []
                    | Some l \<Rightarrow> (case load l (path_join doc_dir fname) bytes of
                                  Inl e \<Rightarrow> [] | Inr documents \<Rightarrow> documents)) files)"

definition reported_errors ::
  "(loader \<Rightarrow> string \<Rightarrow> string \<Rightarrow> string + document list) \<Rightarrow> string \<Rightarrow>
   (string \<times> string) list \<Rightarrow> string list" where
  "reported_errors load doc_dir files =
     concat (map (\<lambda>(fname, bytes).
                    case loader_for fname of
                      None \<Rightarrow> []
                    | Some l \<Rightarrow> (case load l (path_join doc_dir fname) bytes of
                                  Inl e \<Rightarrow> [''Error loading '' @ fname @ '': '' @ e]
                                | Inr documents \<Rightarrow> [])) files)"

section \<open>Sample inputs\<close>

definition sample_run :: "unit RetrievalQA \<Rightarrow> string \<Rightarrow> string + string" where
  "sample_run chain q = (if q = [] then Inl ''empty question'' else Inr (''re: '' @ q))"

definition sample_rag_query :: "unit \<Rightarrow> string \<Rightarrow> int option \<Rightarrow> string + rag_result" where
  "sample_rag_query p q m =
     (if q = [] then Inl ''empty question''
      else Inr \<lparr>rr_response = Some (''re: '' @ q), rr_sources = None\<rparr>)"

definition sample_http_str :: "nat \<Rightarrow> string \<Rightarrow> string" where
  "sample_http_str code detail = detail"

definition sample_amb :: ambient where
  "sample_amb = \<lparr>amb_start = 1, amb_end = 3, amb_uuid = ''u1'', amb_now = ''t1'',
                 amb_now2 = ''t2''\<rparr>"

definition sample_request :: QueryRequest where
  "sample_request = \<lparr>rq_query = ''q'', rq_max_results = Some 5, rq_include_metadata = Some False\<rparr>"

definition sample_request_v2 :: QueryRequest_v2 where
  "sample_request_v2 = \<lparr>question = ''q'', llm_provider = Some ''openai'',
                         search_type_v2 = Some ''similarity'', req_k = Some 4\<rparr>"

definition old_record :: "string \<Rightarrow> query_record" where
  "old_record q = \<lparr>rec_query = q, rec_response = ''r'', rec_timestamp = ''t0'',
                   rec_processing_time = 1, rec_user = None\<rparr>"

definition old_log :: "string \<Rightarrow> query_log" where
  "old_log q = \<lparr>log_query_id = ''u0'', log_question = q, log_answer = ''r'',
                log_llm_provider = None, log_processing_time = 1, log_timestamp = ''t0''\<rparr>"

definition full_em_state :: "(unit, unit) em_state" where
  "full_em_state =
     \<lparr>rag_pipeline = Some (), doc_processor = Some (),
      query_history = old_record ''first'' # replicate 99 (old_record ''later''),
      feedback_data = [],
      system_stats = \<lparr>total_documents = 0, total_queries = 100, total_response_time = 100,
                      startup_time = ''t0''\<rparr>\<rparr>"

definition full_v2_state :: "unit v2_state" where
  "full_v2_state =
     \<lparr>docs_dir = [], vector_store = Some (), qa_chain = Some (get_qa_chain ()),
      query_logs = old_log ''first'' # replicate 99 (old_log ''later''),
      feedback_data_v2 = []\<rparr>"

definition bad_feedback_v2 :: raw_UserFeedback where
  "bad_feedback_v2 = \<lparr>raw_uf_query_id = Given ''u0'', raw_uf_rating = Given 7,
                       raw_uf_comment = Omitted\<rparr>"

definition raw_query_v2 :: "int field \<Rightarrow> raw_QueryRequest_v2" where
  "raw_query_v2 kf = \<lparr>raw_question = Given ''q'', raw_llm_provider = Omitted,
                       raw_search_type = Omitted, raw_k = kf\<rparr>"

definition raw_query_em :: "int field \<Rightarrow> raw_QueryRequest" where
  "raw_query_em m = \<lparr>raw_query = Given ''q'', raw_max_results = m,
                      raw_include_metadata = Omitted\<rparr>"

datatype sample_location = Missing | Corrupt | Saved nat

definition sample_load_local :: "sample_location \<Rightarrow> string + nat" where
  "sample_load_local loc =
     (case loc of Missing \<Rightarrow> Inl ''no such file'' | Corrupt \<Rightarrow> Inl ''bad pickle''
      | Saved vs \<Rightarrow> Inr vs)"

definition sample_embedding :: "string \<Rightarrow> nat" where
  "sample_embedding text = length text"

definition sample_distance :: "nat \<Rightarrow> nat \<Rightarrow> nat" where
  "sample_distance a b = (if a \<le> b then b - a else a - b)"

definition sample_score :: "nat \<Rightarrow> nat embedding_record list \<Rightarrow> nat embedding_record \<Rightarrow> nat" where
  "sample_score v selected r = sample_distance v (er_vector r) + length selected"

definition sample_index :: "nat embedding_record list" where
  "sample_index =
     [\<lparr>er_chunk = \<lparr>page_content = ''Paris is the capital of France.'', metadata = []\<rparr>,
       er_vector = 31\<rparr>,
      \<lparr>er_chunk = \<lparr>page_content = ''Rome'', metadata = []\<rparr>, er_vector = 4\<rparr>,
      \<lparr>er_chunk = \<lparr>page_content = ''Berlin is a city'', metadata = []\<rparr>, er_vector = 16\<rparr>]"

definition sample_load :: "loader \<Rightarrow> string \<Rightarrow> string \<Rightarrow> string + document list" where
  "sample_load l path bytes =
     (if bytes = ''corrupt'' then Inl ''cannot read''
      else Inr [\<lparr>page_content = bytes, metadata = [(''source'', path)]\<rparr>])"

definition sample_splitter :: "nat \<Rightarrow> nat \<Rightarrow> document list \<Rightarrow> document list" where
  "sample_splitter chunk_size overlap docs = docs"


definition sample_now :: "nat \<Rightarrow> string" where
  "sample_now i = ''t''"

definition sample_splitext :: "string \<Rightarrow> string \<times> string" where
  "sample_splitext path =
     (if endswith path ''.pdf'' then (take (length path - 4) path, ''.pdf'')
      else if endswith path ''.txt'' then (take (length path - 4) path, ''.txt'')
      else (path, []))"

definition sample_batch :: "(string \<times> string) list" where
  "sample_batch = [(''a.PDF'', ''Paris''), (''b.pdf'', ''corrupt''), (''c.txt'', ''Rome''),
                   (''d.md'', ''Oslo'')]"






section \<open>Properties\<close>

subsection \<open>Lists\<close>

lemma length_lastn: "length (lastn n xs) = min n (length xs)"
  by (simp add: lastn_def)

lemma lastn_short: "length xs \<le> n \<Longrightarrow> lastn n xs = xs"
  by (simp add: lastn_def)

lemma lastn_lastn_append: "lastn n (lastn n xs @ ys) = lastn n (xs @ ys)"
proof (cases "length xs \<le> n")
  case True
  then show ?thesis by (simp add: lastn_def)
next
  case False
  then have "lastn n xs @ ys = drop (length xs - n) (xs @ ys)"
    by (simp add: lastn_def)
  moreover have "length (lastn n xs @ ys) - n + (length xs - n) = length (xs @ ys) - n"
    using False by (simp add: lastn_def)
  ultimately show ?thesis
    by (simp add: lastn_def del: length_append drop_append)
qed

lemma pop0_is_lastn:
  "length xs \<le> n \<Longrightarrow> length (xs @ [x]) > n \<Longrightarrow> tl (xs @ [x]) = lastn n (xs @ [x])"
proof -
  assume "length xs \<le> n" and "length (xs @ [x]) > n"
  then have "length (xs @ [x]) - n = Suc 0" by simp
  then show ?thesis by (simp only: lastn_def drop_Suc drop_0)
qed

subsection \<open>Querying before ingestion\<close>

lemma query_not_ready:
  "qa_chain st = None \<Longrightarrow> query run q st = (Inr (Error_reply ''No data ingested yet.''), st)"
  by (simp add: query_def)

lemma enhanced_query_not_ready:
  "qa_chain st = None \<Longrightarrow>
   enhanced_query run amb request st =
     (Inl (HTTPException 400 ''No data ingested yet. Please upload documents first.''), st)"
  by (simp add: enhanced_query_def)

lemma queries_not_ready:
  "qa_chain st = None \<Longrightarrow>
   queries run qs st = (replicate (length qs) (Inr (Error_reply ''No data ingested yet.'')), st)"
  by (induction qs) (simp_all add: query_not_ready)

lemma enhanced_queries_not_ready:
  "qa_chain st = None \<Longrightarrow>
   enhanced_queries run ops st =
     (replicate (length ops)
        (Inl (HTTPException 400 ''No data ingested yet. Please upload documents first.'')), st)"
  by (induction ops) (auto simp: enhanced_query_not_ready)

text \<open>
  Claim C1. While \<open>qa_chain\<close> is unset, every query of any sequence gets the not-ready
  error and never an answer: main.py returns the body \<open>{"error": "No data ingested yet."}\<close>,
  main\_v2.py raises the 400, on \<open>/v2/query/\<close> and on \<open>/query/\<close>; the state stays as it was.
\<close>

theorem query_before_ingestion_not_ready:
  assumes "qa_chain st = None" and "qa_chain u = None"
  shows "queries run qs st =
           (replicate (length qs) (Inr (Error_reply ''No data ingested yet.'')), st)
       \<and> enhanced_queries run' ops u =
           (replicate (length ops)
              (Inl (HTTPException 400 ''No data ingested yet. Please upload documents first.'')),
            u)
       \<and> query_v2 run' amb q u =
           (Inl (HTTPException 400 ''No data ingested yet. Please upload documents first.''), u)"
  using assms
  by (simp add: queries_not_ready enhanced_queries_not_ready query_v2_def
      enhanced_query_not_ready)

theorem query_before_ingestion_not_ready_witness:
  "qa_chain (main_init :: unit main_state) = None
   \<and> qa_chain (v2_init :: unit v2_state) = None
   \<and> fst (queries sample_run [''a'', ''b''] (main_init :: unit main_state)) =
       [Inr (Error_reply ''No data ingested yet.''), Inr (Error_reply ''No data ingested yet.'')]
   \<and> fst (enhanced_queries sample_run [(sample_amb, sample_request_v2)] v2_init) =
       [Inl (HTTPException 400 ''No data ingested yet. Please upload documents first.'')]"
proof -
  have h1: "qa_chain (main_init :: unit main_state) = None" by (simp add: main_init_def)
  have h2: "qa_chain (v2_init :: unit v2_state) = None" by (simp add: v2_init_def)
  show ?thesis
    using h1 h2 query_before_ingestion_not_ready [OF h1 h2, of sample_run "[''a'', ''b'']"
        sample_run "[(sample_amb, sample_request_v2)]" sample_amb "''a''"]
    by simp
qed

subsection \<open>Bad files in a batch\<close>

lemma enhanced_loop_eq:
  "enhanced_loop load d files docs printed =
     (docs @ good_documents load d files, printed @ reported_errors load d files)"
  by (induction files arbitrary: docs printed)
     (auto simp: good_documents_def reported_errors_def split: option.splits sum.splits)

lemma good_documents_filter:
  "good_documents load d (filter (readable load d) files) = good_documents load d files"
  by (induction files)
     (auto simp: good_documents_def readable_def split: option.splits sum.splits)

lemma length_reported_errors:
  "length (reported_errors load d files) =
     length (filter (\<lambda>file. loader_for (fst file) \<noteq> None \<and> \<not> readable load d file) files)"
  by (induction files)
     (auto simp: reported_errors_def readable_def split: option.splits sum.splits)

text \<open>
  Claim C2 as stated fails. \<open>EnhancedDocumentIngestor.ingest_documents\<close> skips an
  unsupported file \<open>d.md\<close> without reporting anything; and \<open>ingest_documents\<close> of
  ingest.py, which catches nothing, loses the whole batch to one unreadable PDF.
\<close>

theorem bad_file_counterexample:
  "ingest_documents_enhanced sample_load sample_splitter sample_now sample_splitext ''docs''
     [(''a.pdf'', ''Paris''), (''d.md'', ''Oslo'')] =
     ([\<lparr>page_content = ''Paris'',
        metadata = [(''source'', ''docs/a.pdf''), (''processed_at'', ''t''),
                    (''file_type'', ''.pdf'')]\<rparr>], [])
   \<and> ingest_documents sample_load sample_splitter ''docs''
       [(''a.pdf'', ''Paris''), (''b.pdf'', ''corrupt''), (''c.pdf'', ''Rome'')] =
     Inl ''cannot read''"
  by code_simp

text \<open>
  Claim C2, amended. \<open>EnhancedDocumentIngestor.ingest_documents\<close> never aborts a batch:
  it returns the chunks of the documents of every file that loads, in listing order,
  whatever else the batch holds; taking the other files out of the batch gives the same
  chunks. It prints one error for each file of a supported extension whose loader fails,
  and nothing for a file of an unsupported extension.
\<close>

theorem enhanced_ingest_skips_bad_files:
  "ingest_documents_enhanced load splitter now splitext d files =
     (add_metadata now splitext 0 (splitter 1000 200 (good_documents load d files)),
      reported_errors load d files)
   \<and> fst (ingest_documents_enhanced load splitter now splitext d
          (filter (readable load d) files)) =
       fst (ingest_documents_enhanced load splitter now splitext d files)
   \<and> length (reported_errors load d files) =
       length (filter (\<lambda>file. loader_for (fst file) \<noteq> None \<and> \<not> readable load d file) files)"
  by (simp add: ingest_documents_enhanced_def enhanced_loop_eq good_documents_filter
      length_reported_errors)

theorem enhanced_ingest_skips_bad_files_witness:
  "ingest_documents_enhanced sample_load sample_splitter sample_now sample_splitext ''docs''
     sample_batch =
     ([\<lparr>page_content = ''Paris'',
        metadata = [(''source'', ''docs/a.PDF''), (''processed_at'', ''t''),
                    (''file_type'', [])]\<rparr>,
       \<lparr>page_content = ''Rome'',
        metadata = [(''source'', ''docs/c.txt''), (''processed_at'', ''t''),
                    (''file_type'', ''.txt'')]\<rparr>],
      [''Error loading b.pdf: cannot read''])
   \<and> good_documents sample_load ''docs'' sample_batch =
       [\<lparr>page_content = ''Paris'', metadata = [(''source'', ''docs/a.PDF'')]\<rparr>,
        \<lparr>page_content = ''Rome'', metadata = [(''source'', ''docs/c.txt'')]\<rparr>]
   \<and> filter (readable sample_load ''docs'') sample_batch =
       [(''a.PDF'', ''Paris''), (''c.txt'', ''Rome'')]"
proof -
  have e: "ingest_documents_enhanced sample_load sample_splitter sample_now sample_splitext
      ''docs'' sample_batch =
     ([\<lparr>page_content = ''Paris'',
        metadata = [(''source'', ''docs/a.PDF''), (''processed_at'', ''t''),
                    (''file_type'', [])]\<rparr>,
       \<lparr>page_content = ''Rome'',
        metadata = [(''source'', ''docs/c.txt''), (''processed_at'', ''t''),
                    (''file_type'', ''.txt'')]\<rparr>],
      [''Error loading b.pdf: cannot read''])"
    by code_simp
  have g: "good_documents sample_load ''docs'' sample_batch =
       [\<lparr>page_content = ''Paris'', metadata = [(''source'', ''docs/a.PDF'')]\<rparr>,
        \<lparr>page_content = ''Rome'', metadata = [(''source'', ''docs/c.txt'')]\<rparr>]"
    by code_simp
  have r: "filter (readable sample_load ''docs'') sample_batch =
       [(''a.PDF'', ''Paris''), (''c.txt'', ''Rome'')]"
    by code_simp
  show ?thesis
    using e g r enhanced_ingest_skips_bad_files [where load = sample_load
        and splitter = sample_splitter and now = sample_now and splitext = sample_splitext
        and d = "''docs''" and files = sample_batch]
    by simp
qed

subsection \<open>The number of search results\<close>

lemma length_diverse: "length (diverse score n selected candidates) = min n (length candidates)"
proof (induction score n selected candidates rule: diverse.induct)
  case (3 score n selected c cs)
  let ?best = "arg_min_list (score selected) (c # cs)"
  have "?best \<in> set (c # cs)" by (rule arg_min_list_in) simp
  then have "length (remove1 ?best (c # cs)) = length cs"
    by (simp only: length_remove1 if_True) simp
  with "3.IH" [of ?best] show ?case by (simp add: Let_def del: remove1.simps)
qed simp_all

lemma set_diverse: "set (diverse score n selected candidates) \<subseteq> set candidates"
proof (induction score n selected candidates rule: diverse.induct)
  case (3 score n selected c cs)
  let ?best = "arg_min_list (score selected) (c # cs)"
  have "?best \<in> set (c # cs)" by (rule arg_min_list_in) simp
  moreover have "set (remove1 ?best (c # cs)) \<subseteq> set (c # cs)" by (rule set_remove1_subset)
  ultimately show ?case using "3.IH" [of ?best]
    by (auto simp add: Let_def simp del: remove1.simps)
qed simp_all

lemma length_nearest:
  "length (nearest embedding distance index q k) = min (nat k) (length index)"
  by (simp add: nearest_def)

lemma sorted_nearest: "sorted (map snd (nearest embedding distance index q k))"
  by (simp add: nearest_def take_map [symmetric] sorted_wrt_take del: take_map)

lemma set_nearest: "fst ` set (nearest embedding distance index q k) \<subseteq> set index"
proof -
  have "set (nearest embedding distance index q k) \<subseteq>
        set (map (\<lambda>r. (r, distance (embedding q) (er_vector r))) index)"
    unfolding nearest_def using set_take_subset [of "nat k"] by (metis set_sort)
  then show ?thesis by auto
qed

text \<open>
  Claim C3. For every query text and every \<open>k \<ge> 1\<close>, \<open>search\<close> over an index of \<open>n\<close>
  records returns exactly \<open>min k n\<close> results, all of them records of the index, with
  either search type; plain nearest-neighbour results are ordered by increasing distance.
  The retriever that \<open>EnhancedRAGPipeline.get_qa_chain\<close> configures searches with the
  \<open>k\<close> it was given, so it retrieves \<open>min k n\<close> results too.
\<close>

theorem search_returns_min_k_n:
  assumes "1 \<le> k"
  shows "length (search embedding distance score index q k st) = min (nat k) (length index)
       \<and> fst ` set (search embedding distance score index q k st) \<subseteq> set index
       \<and> sorted (map snd (search embedding distance score index q k ''similarity''))
       \<and> length (retrieve embedding distance score default_k
            (chain_retriever (get_qa_chain_enhanced self index (Some st) (Some k))) q) =
           min (nat k) (length index)"
proof -
  have len: "length (search embedding distance score index q k st) = min (nat k) (length index)"
    for st
    by (simp add: search_def length_nearest length_diverse)
  have sub: "fst ` set (search embedding distance score index q k st) \<subseteq> set index"
    using set_nearest [of embedding distance index q k]
      set_diverse [of "score (embedding q)" "nat k" "[]" index]
    by (auto simp: search_def)
  have srt: "sorted (map snd (search embedding distance score index q k ''similarity''))"
    by (simp add: search_def sorted_nearest)
  have "retrieve embedding distance score default_k
            (chain_retriever (get_qa_chain_enhanced self index (Some st) (Some k))) q =
        search embedding distance score index q k st"
    by (simp add: retrieve_def get_qa_chain_enhanced_def dict_get_def Let_def)
  with len sub srt show ?thesis by simp
qed

theorem search_returns_min_k_n_witness:
  "(1::int) \<le> 2
   \<and> length (search sample_embedding sample_distance sample_score sample_index
        ''What is the capital?'' 2 ''similarity'') = 2
   \<and> length (search sample_embedding sample_distance sample_score sample_index
        ''What is the capital?'' 5 ''mmr'') = 3"
proof -
  have h1: "(1::int) \<le> 2" and h2: "(1::int) \<le> 5" by simp_all
  show ?thesis
    using h1
      search_returns_min_k_n [OF h1, where embedding = sample_embedding
        and distance = sample_distance and score = sample_score and index = sample_index
        and q = "''What is the capital?''" and st = "''similarity''"]
      search_returns_min_k_n [OF h2, where embedding = sample_embedding
        and distance = sample_distance and score = sample_score and index = sample_index
        and q = "''What is the capital?''" and st = "''mmr''"]
    by (simp add: sample_index_def)
qed

subsection \<open>Restoring a persisted index\<close>

text \<open>
  Claim C4 as stated fails: at a missing and at a corrupt location alike,
  \<open>load_vector_store\<close> raises nothing and returns \<open>None\<close>.
\<close>

theorem restore_counterexample:
  "load_vector_store sample_load_local Missing = Inr None
   \<and> load_vector_store sample_load_local Corrupt = Inr None"
  by (simp add: load_vector_store_def sample_load_local_def)

text \<open>
  Claim C4, amended. Whenever loading the persisted index fails, \<open>load_vector_store\<close>
  returns \<open>None\<close>: no exception reaches the caller and no empty index is made; whenever
  loading succeeds it returns the loaded store. Failure is told from success by \<open>None\<close>,
  and a missing location is not told from a corrupt one.
\<close>

theorem restore_returns_none:
  "(load_local loc = Inl e \<longrightarrow> load_vector_store load_local loc = Inr None)
   \<and> (load_local loc = Inr vs \<longrightarrow> load_vector_store load_local loc = Inr (Some vs))
   \<and> \<not> isl (load_vector_store load_local loc)"
  by (auto simp: load_vector_store_def split: sum.splits)

theorem restore_returns_none_witness:
  "sample_load_local Corrupt = Inl ''bad pickle''
   \<and> load_vector_store sample_load_local Corrupt = Inr None
   \<and> sample_load_local (Saved 3) = Inr 3
   \<and> load_vector_store sample_load_local (Saved 3) = Inr (Some 3)"
proof -
  have h1: "sample_load_local Corrupt = Inl ''bad pickle''"
    by (simp add: sample_load_local_def)
  have h2: "sample_load_local (Saved 3) = Inr 3"
    by (simp add: sample_load_local_def)
  show ?thesis
    using h1 h2
      restore_returns_none [where load_local = sample_load_local and loc = Corrupt
        and e = "''bad pickle''" and vs = 0]
      restore_returns_none [where load_local = sample_load_local and loc = "Saved 3"
        and e = "''x''" and vs = 3]
    by simp
qed

subsection \<open>Queries leave the index alone\<close>

text \<open>
  Claim C5. A query, answered or failed, changes nothing in main.py; in main\_v2.py it
  leaves the vector store, the chain built on it and the documents directory as they
  were; in enhanced\_main.py it leaves the pipeline, the document processor and the
  document count as they were; and a failed query changes nothing at all. The library calls
  \<open>qa_chain.run\<close> and \<open>rag_pipeline.query\<close> are functions of their arguments here: what
  the theorem covers is every assignment the handlers make.
\<close>

theorem query_leaves_index_unchanged:
  "snd (query run q s) = s
   \<and> vector_store (snd (enhanced_query run' amb request st)) = vector_store st
   \<and> qa_chain (snd (enhanced_query run' amb request st)) = qa_chain st
   \<and> docs_dir (snd (enhanced_query run' amb request st)) = docs_dir st
   \<and> (isl (fst (enhanced_query run' amb request st)) \<longrightarrow>
        snd (enhanced_query run' amb request st) = st)
   \<and> rag_pipeline (snd (process_query http_str rag_query amb' request' user u)) =
        rag_pipeline u
   \<and> doc_processor (snd (process_query http_str rag_query amb' request' user u)) =
        doc_processor u
   \<and> total_documents (system_stats (snd (process_query http_str rag_query amb' request' user u))) =
        total_documents (system_stats u)
   \<and> (isl (fst (process_query http_str rag_query amb' request' user u)) \<longrightarrow>
        snd (process_query http_str rag_query amb' request' user u) = u)"
  by (auto simp: query_def enhanced_query_def process_query_def Let_def
      split: option.splits sum.splits)

theorem query_leaves_index_unchanged_witness:
  "isl (fst (enhanced_query sample_run sample_amb (sample_request_v2\<lparr>question := []\<rparr>)
        full_v2_state))
   \<and> snd (enhanced_query sample_run sample_amb (sample_request_v2\<lparr>question := []\<rparr>)
        full_v2_state) = full_v2_state
   \<and> isl (fst (process_query sample_http_str sample_rag_query sample_amb
        (sample_request\<lparr>rq_query := []\<rparr>) None full_em_state))
   \<and> snd (process_query sample_http_str sample_rag_query sample_amb
        (sample_request\<lparr>rq_query := []\<rparr>) None full_em_state) = full_em_state"
proof -
  have h1: "isl (fst (enhanced_query sample_run sample_amb (sample_request_v2\<lparr>question := []\<rparr>)
        full_v2_state))"
    by (simp add: enhanced_query_def full_v2_state_def sample_run_def sample_request_v2_def)
  have h2: "isl (fst (process_query sample_http_str sample_rag_query sample_amb
        (sample_request\<lparr>rq_query := []\<rparr>) None full_em_state))"
    by (simp add: process_query_def full_em_state_def sample_rag_query_def sample_request_def)
  show ?thesis
    using h1 h2 query_leaves_index_unchanged [of sample_run "''x''" "main_init :: unit main_state"
        sample_run sample_amb "sample_request_v2\<lparr>question := []\<rparr>" full_v2_state
        sample_http_str sample_rag_query sample_amb "sample_request\<lparr>rq_query := []\<rparr>" None
        full_em_state]
    by blast
qed

subsection \<open>Splitting and reconstructing\<close>

lemma windows_short:
  "t = [] \<or> length t \<le> chunk_size \<Longrightarrow>
   windows chunk_size overlap t = (if t = [] then [] else [t])"
  by (subst windows.simps) auto

lemma windows_long:
  "overlap < chunk_size \<Longrightarrow> \<not> (t = [] \<or> length t \<le> chunk_size) \<Longrightarrow>
   windows chunk_size overlap t =
     take chunk_size t # windows chunk_size overlap (drop (chunk_size - overlap) t)"
  by (subst windows.simps) auto

lemma windows_not_empty:
  "overlap < chunk_size \<Longrightarrow> [] \<notin> set (windows chunk_size overlap t)"
proof (induction chunk_size overlap t rule: windows.induct)
  case (1 chunk_size overlap t)
  show ?case
  proof (cases "t = [] \<or> length t \<le> chunk_size")
    case True
    then show ?thesis by (simp add: windows_short)
  next
    case False
    then have "take chunk_size t \<noteq> []" using "1.prems" by auto
    moreover have "[] \<notin> set (windows chunk_size overlap (drop (chunk_size - overlap) t))"
      using False "1.prems" by (intro "1.IH") auto
    ultimately show ?thesis by (simp add: windows_long [OF "1.prems" False])
  qed
qed

lemma windows_max_length:
  "overlap < chunk_size \<Longrightarrow> c \<in> set (windows chunk_size overlap t) \<Longrightarrow>
   length c \<le> chunk_size"
proof (induction chunk_size overlap t rule: windows.induct)
  case (1 chunk_size overlap t)
  show ?case
  proof (cases "t = [] \<or> length t \<le> chunk_size")
    case True
    with "1.prems" show ?thesis by (auto simp: windows_short split: if_splits)
  next
    case False
    with "1.prems" have "c = take chunk_size t \<or>
        c \<in> set (windows chunk_size overlap (drop (chunk_size - overlap) t))"
      by (simp add: windows_long)
    then show ?thesis
    proof
      assume "c = take chunk_size t"
      then show ?thesis by simp
    next
      assume "c \<in> set (windows chunk_size overlap (drop (chunk_size - overlap) t))"
      then show ?thesis using False "1.prems"(1) by (intro "1.IH") auto
    qed
  qed
qed

lemma tails_windows:
  "overlap < chunk_size \<Longrightarrow>
   concat (map (drop overlap) (windows chunk_size overlap t)) = drop overlap t"
proof (induction chunk_size overlap t rule: windows.induct)
  case (1 chunk_size overlap t)
  show ?case
  proof (cases "t = [] \<or> length t \<le> chunk_size")
    case True
    then show ?thesis by (simp add: windows_short)
  next
    case False
    note w = windows_long [OF "1.prems" False]
    have ih: "concat (map (drop overlap)
          (windows chunk_size overlap (drop (chunk_size - overlap) t))) =
        drop overlap (drop (chunk_size - overlap) t)"
      using False "1.prems" by (intro "1.IH") auto
    have "drop overlap (take chunk_size t) @ drop overlap (drop (chunk_size - overlap) t) =
        take (chunk_size - overlap) (drop overlap t) @
        drop (chunk_size - overlap) (drop overlap t)"
      using "1.prems" by (simp add: drop_take add.commute)
    then show ?thesis unfolding w by (simp only: list.map concat.simps ih append_take_drop_id)
  qed
qed

lemma unsplit_windows:
  assumes "overlap < chunk_size"
  shows "unsplit overlap (windows chunk_size overlap t) = t"
proof (cases "t = [] \<or> length t \<le> chunk_size")
  case True
  then show ?thesis by (simp add: windows_short)
next
  case False
  note w = windows_long [OF assms False]
  have "unsplit overlap (windows chunk_size overlap t) =
      take chunk_size t @ drop overlap (drop (chunk_size - overlap) t)"
    unfolding w by (simp only: unsplit.simps tails_windows [OF assms])
  also have "\<dots> = t" using assms by simp
  finally show ?thesis .
qed

lemma overlapping_windows:
  "overlap < chunk_size \<Longrightarrow> overlapping overlap (windows chunk_size overlap t)"
proof (induction chunk_size overlap t rule: windows.induct)
  case (1 chunk_size overlap t)
  show ?case
  proof (cases "t = [] \<or> length t \<le> chunk_size")
    case True
    then show ?thesis by (simp add: windows_short)
  next
    case False
    let ?rest = "drop (chunk_size - overlap) t"
    note w = windows_long [OF "1.prems" False]
    have len: "overlap < length ?rest" using False "1.prems" by simp arith
    have ih: "overlapping overlap (windows chunk_size overlap ?rest)"
      using False "1.prems" by (intro "1.IH") auto
    have a: "drop (length (take chunk_size t) - overlap) (take chunk_size t) =
        take overlap ?rest"
      using False "1.prems" by (simp add: drop_take min_def)
    have la: "overlap \<le> length (take chunk_size t)" using False "1.prems" by simp
    show ?thesis
    proof (cases "length ?rest \<le> chunk_size")
      case True
      moreover from len have "?rest \<noteq> []" by auto
      ultimately have r: "windows chunk_size overlap ?rest = [?rest]"
        using windows_short [of ?rest chunk_size overlap] by simp
      show ?thesis unfolding w r using len a la by (simp only: overlapping.simps)
    next
      case short: False
      with len have "\<not> (?rest = [] \<or> length ?rest \<le> chunk_size)" by auto
      note r = windows_long [OF "1.prems" this]
      have b1: "overlap < length (take chunk_size ?rest)" using len "1.prems" by simp
      have b2: "take overlap (take chunk_size ?rest) = take overlap ?rest"
        using "1.prems" by (simp add: min_def)
      show ?thesis unfolding w using ih unfolding r using b1 b2 a la
        by (simp only: overlapping.simps)
    qed
  qed
qed

text \<open>
  Claim C6. For every text and all parameters with \<open>0 < overlap < chunk_size\<close>, the
  splitter accepts the parameters and returns non-empty chunks of at most \<open>chunk_size\<close>
  characters, each chunk after the first beginning with exactly the last \<open>overlap\<close>
  characters of its predecessor and going on beyond them; concatenating the chunks with
  the overlaps removed gives the text back.
\<close>

theorem splitter_reconstructs:
  assumes "0 < overlap" and "overlap < chunk_size"
  shows "split t chunk_size overlap = Inr (windows chunk_size overlap t)
       \<and> [] \<notin> set (windows chunk_size overlap t)
       \<and> list_all (\<lambda>c. length c \<le> chunk_size) (windows chunk_size overlap t)
       \<and> overlapping overlap (windows chunk_size overlap t)
       \<and> unsplit overlap (windows chunk_size overlap t) = t"
  using assms windows_not_empty [of overlap chunk_size t]
    windows_max_length [of overlap chunk_size _ t]
    overlapping_windows [of overlap chunk_size t]
    unsplit_windows [of overlap chunk_size t]
  by (simp add: split_def list_all_iff)

theorem splitter_reconstructs_witness:
  "(0::nat) < 2 \<and> (2::nat) < 5
   \<and> split ''abcdefghij'' 5 2 = Inr [''abcde'', ''defgh'', ''ghij'']
   \<and> overlapping 2 [''abcde'', ''defgh'', ''ghij'']
   \<and> unsplit 2 [''abcde'', ''defgh'', ''ghij''] = ''abcdefghij''
   \<and> split ''Paris is the capital of France.'' 500 50 = Inr [''Paris is the capital of France.'']
   \<and> split ''Paris is the capital of France.'' 1000 200 =
       Inr [''Paris is the capital of France.'']"
proof -
  have h1: "(0::nat) < 2" and h2: "(2::nat) < 5" by simp_all
  have h3: "(0::nat) < 50" and h4: "(50::nat) < 500" by simp_all
  have w: "windows 5 2 ''abcdefghij'' = [''abcde'', ''defgh'', ''ghij'']"
    by (simp add: windows.simps)
  have h5: "(0::nat) < 200" and h6: "(200::nat) < 1000" by simp_all
  have w': "windows 500 50 ''Paris is the capital of France.'' =
      [''Paris is the capital of France.'']"
    by (simp add: windows.simps)
  have w'': "windows 1000 200 ''Paris is the capital of France.'' =
      [''Paris is the capital of France.'']"
    by (simp add: windows.simps)
  show ?thesis
    using splitter_reconstructs [OF h1 h2, of "''abcdefghij''"]
      splitter_reconstructs [OF h3 h4, of "''Paris is the capital of France.''"]
      splitter_reconstructs [OF h5 h6, of "''Paris is the capital of France.''"]
    unfolding w w' w'' by simp
qed

subsection \<open>Feedback ratings\<close>

text \<open>
  Claim C7. The claim asks that a rating outside 1 to 5 is rejected and never appended.
  \<open>POST /v2/feedback/\<close> of main\_v2.py, whose model documents the range in a comment
  only, accepts the rating 7 and appends it.
\<close>

theorem feedback_rating_unchecked_v2:
  "post_v2_feedback sample_amb bad_feedback_v2 (v2_init :: unit v2_state) =
     (Inr (''feedback_received'', ''u1''),
      v2_init\<lparr>feedback_data_v2 :=
        [\<lparr>fe_feedback_id = ''u1'', fe_query_id = ''u0'', fe_rating = 7, fe_comment = None,
          fe_timestamp = ''t1''\<rparr>]\<rparr>)"
  by (simp add: post_v2_feedback_def validate_UserFeedback_def bad_feedback_v2_def required_def
      optional_def submit_feedback_v2_def sample_amb_def v2_init_def Let_def)

text \<open>
  \<open>POST /feedback\<close> of enhanced\_main.py, whose model declares \<open>ge=1, le=5\<close>, does
  what the claim says: a rating outside the range is rejected with the state unchanged,
  and an accepted submission has a rating in the range.
\<close>

lemma post_feedback_rejects:
  "raw_fb_rating raw = Given n \<Longrightarrow> n < 1 \<or> 5 < n \<Longrightarrow>
   \<exists>fields. ''rating'' \<in> set fields \<and>
     post_feedback amb raw user st = (Inl (RequestValidationError fields), st)"
  by (auto simp: post_feedback_def validate_FeedbackRequest_def required_def bind_field_def
      ge_le_def failed_def Let_def split: sum.splits field.splits)

lemma post_feedback_accepts:
  "post_feedback amb raw user st = (Inr m, st') \<Longrightarrow>
   \<exists>n. raw_fb_rating raw = Given n \<and> 1 \<le> n \<and> n \<le> 5"
  by (auto simp: post_feedback_def validate_FeedbackRequest_def required_def bind_field_def
      ge_le_def failed_def Let_def split: sum.splits field.splits if_splits)

subsection \<open>The bound on the number of results requested\<close>

text \<open>
  Claim C8 as stated fails: in main\_v2.py the parameter is \<open>k\<close>, it defaults to 4, and
  25 is accepted and the query answered; in enhanced\_main.py an explicit \<open>null\<close> is
  accepted as \<open>None\<close>.
\<close>

theorem max_results_counterexample:
  "validate_QueryRequest_v2 (raw_query_v2 Omitted) =
     Inr \<lparr>question = ''q'', llm_provider = Some ''openai'',
          search_type_v2 = Some ''similarity'', req_k = Some 4\<rparr>
   \<and> validate_QueryRequest_v2 (raw_query_v2 (Given 25)) =
     Inr \<lparr>question = ''q'', llm_provider = Some ''openai'',
          search_type_v2 = Some ''similarity'', req_k = Some 25\<rparr>
   \<and> fst (post_v2_query sample_run sample_amb (raw_query_v2 (Given 25)) full_v2_state) =
     Inr \<lparr>answer = ''re: q'', sources_v2 = [], confidence = 85 / 100,
          processing_time_v2 = 2, query_id = ''u1''\<rparr>
   \<and> validate_QueryRequest (raw_query_em Null) =
     Inr \<lparr>rq_query = ''q'', rq_max_results = None, rq_include_metadata = Some False\<rparr>"
  by (simp add: validate_QueryRequest_v2_def raw_query_v2_def required_def optional_def
      post_v2_query_def enhanced_query_def full_v2_state_def sample_run_def sample_amb_def
      validate_QueryRequest_def raw_query_em_def max_results_field_def bind_field_def
      length_between_def Let_def)

text \<open>
  Claim C8, amended. In enhanced\_main.py \<open>max_results\<close> is 5 when omitted, an integer is
  accepted only when it lies in 1 to 20 and otherwise rejected with a validation error
  before \<open>process_query\<close> runs (whatever the pipeline is, the state is unchanged), and
  an explicit \<open>null\<close> is accepted as \<open>None\<close>. In main\_v2.py the parameter is \<open>k\<close>: it
  is 4 when omitted, every integer is accepted, and the answer does not depend on it.
\<close>

theorem max_results_validated:
  "(raw_max_results raw = Omitted \<longrightarrow> raw_query raw = Given q \<longrightarrow>
      1 \<le> length q \<longrightarrow> length q \<le> 1000 \<longrightarrow>
      post_query http_str rag_query amb raw user st =
        process_query http_str rag_query amb
          \<lparr>rq_query = q, rq_max_results = Some 5,
           rq_include_metadata = optional (Some False) (raw_include_metadata raw)\<rparr> user st)
   \<and> (raw_max_results raw = Given n \<longrightarrow> \<not> (1 \<le> n \<and> n \<le> 20) \<longrightarrow>
        (\<exists>fields. ''max_results'' \<in> set fields \<and>
           post_query http_str rag_query amb raw user st =
             (Inl (RequestValidationError fields), st)))
   \<and> (raw_max_results raw = Given n \<longrightarrow> validate_QueryRequest raw = Inr request \<longrightarrow>
        1 \<le> n \<and> n \<le> 20 \<and> rq_max_results request = Some n)
   \<and> (raw_max_results raw = Null \<longrightarrow> validate_QueryRequest raw = Inr request \<longrightarrow>
        rq_max_results request = None)
   \<and> (raw_question raw' = Given q' \<longrightarrow>
        post_v2_query run amb' raw' st' =
          enhanced_query run amb'
            \<lparr>question = q',
             llm_provider = optional (Some ''openai'') (raw_llm_provider raw'),
             search_type_v2 = optional (Some ''similarity'') (raw_search_type raw'),
             req_k = optional (Some 4) (raw_k raw')\<rparr> st')
   \<and> optional (Some 4) (Omitted :: int field) = Some 4
   \<and> enhanced_query run amb' (request'\<lparr>req_k := any\<rparr>) st' = enhanced_query run amb' request' st'"
  by (auto simp: post_query_def validate_QueryRequest_def required_def bind_field_def
      max_results_field_def optional_def ge_le_def length_between_def failed_def Let_def
      post_v2_query_def validate_QueryRequest_v2_def enhanced_query_def query_log_of_def
      split: sum.splits field.splits if_splits option.splits)

theorem max_results_validated_witness:
  "post_query sample_http_str sample_rag_query sample_amb (raw_query_em Omitted) None
       full_em_state =
     process_query sample_http_str sample_rag_query sample_amb
       \<lparr>rq_query = ''q'', rq_max_results = Some 5, rq_include_metadata = Some False\<rparr> None
       full_em_state
   \<and> (\<exists>fields. ''max_results'' \<in> set fields \<and>
        post_query sample_http_str sample_rag_query sample_amb (raw_query_em (Given 21)) None
          full_em_state = (Inl (RequestValidationError fields), full_em_state))
   \<and> validate_QueryRequest (raw_query_em (Given 20)) =
        Inr \<lparr>rq_query = ''q'', rq_max_results = Some 20, rq_include_metadata = Some False\<rparr>
   \<and> validate_QueryRequest (raw_query_em Null) =
        Inr \<lparr>rq_query = ''q'', rq_max_results = None, rq_include_metadata = Some False\<rparr>
   \<and> post_v2_query sample_run sample_amb (raw_query_v2 (Given 0)) full_v2_state =
        enhanced_query sample_run sample_amb
          \<lparr>question = ''q'', llm_provider = Some ''openai'',
           search_type_v2 = Some ''similarity'', req_k = Some 0\<rparr> full_v2_state"
proof -
  have v20: "validate_QueryRequest (raw_query_em (Given 20)) =
      Inr \<lparr>rq_query = ''q'', rq_max_results = Some 20, rq_include_metadata = Some False\<rparr>"
    by (simp add: validate_QueryRequest_def raw_query_em_def required_def bind_field_def
        length_between_def max_results_field_def optional_def ge_le_def)
  have vnull: "validate_QueryRequest (raw_query_em Null) =
      Inr \<lparr>rq_query = ''q'', rq_max_results = None, rq_include_metadata = Some False\<rparr>"
    by (simp add: validate_QueryRequest_def raw_query_em_def required_def bind_field_def
        length_between_def max_results_field_def optional_def ge_le_def)
  note inst = max_results_validated [where http_str = sample_http_str
      and rag_query = sample_rag_query and amb = sample_amb and user = None
      and st = full_em_state and q = "''q''" and raw' = "raw_query_v2 (Given 0)"
      and q' = "''q''" and run = sample_run and amb' = sample_amb and st' = full_v2_state
      and any = None and request' = sample_request_v2]
  show ?thesis
    using v20 vnull
      inst [where raw = "raw_query_em Omitted" and n = 0 and request = sample_request]
      inst [where raw = "raw_query_em (Given 21)" and n = 21 and request = sample_request]
      inst [where raw = "raw_query_em (Given 20)" and n = 20 and request =
        "\<lparr>rq_query = ''q'', rq_max_results = Some 20, rq_include_metadata = Some False\<rparr>"]
      inst [where raw = "raw_query_em Null" and n = 0 and request =
        "\<lparr>rq_query = ''q'', rq_max_results = None, rq_include_metadata = Some False\<rparr>"]
    by (simp add: raw_query_em_def raw_query_v2_def optional_def)
qed

subsection \<open>The query history\<close>

lemma process_query_history:
  "length (query_history st) \<le> 100 \<Longrightarrow>
   query_history (snd (process_query hs rq amb request user st)) =
     lastn 100 (query_history st @ answered_records rq (rag_pipeline st) [(amb, request, user)])"
  by (auto simp: process_query_def Let_def lastn_short pop0_is_lastn split: option.splits sum.splits)

lemma process_query_pipeline:
  "rag_pipeline (snd (process_query hs rq amb request user st)) = rag_pipeline st"
  by (auto simp: process_query_def Let_def split: option.splits sum.splits)

lemma answered_records_append:
  "answered_records rq p (xs @ ys) = answered_records rq p xs @ answered_records rq p ys"
  by (induction xs) (auto split: option.splits sum.splits)

lemma process_queries_history:
  "length (query_history st) \<le> 100 \<Longrightarrow>
   query_history (snd (process_queries hs rq ops st)) =
     lastn 100 (query_history st @ answered_records rq (rag_pipeline st) ops)"
proof (induction ops arbitrary: st)
  case Nil
  then show ?case by (simp add: lastn_short)
next
  case (Cons op ops)
  obtain amb request user where op: "op = (amb, request, user)" by (cases op) auto
  let ?st' = "snd (process_query hs rq amb request user st)"
  have h: "query_history ?st' =
      lastn 100 (query_history st @ answered_records rq (rag_pipeline st) [(amb, request, user)])"
    using Cons.prems by (rule process_query_history)
  then have len: "length (query_history ?st') \<le> 100" by (simp add: length_lastn)
  have "query_history (snd (process_queries hs rq (op # ops) st)) =
        query_history (snd (process_queries hs rq ops ?st'))"
    by (simp add: op split: prod.splits)
  also have "\<dots> = lastn 100 (query_history ?st' @ answered_records rq (rag_pipeline ?st') ops)"
    using len by (rule Cons.IH)
  also have "\<dots> = lastn 100 (query_history st @ answered_records rq (rag_pipeline st) (op # ops))"
    unfolding h process_query_pipeline lastn_lastn_append
    using answered_records_append [of rq "rag_pipeline st" "[(amb, request, user)]" ops]
    by (simp add: op)
  finally show ?case .
qed

lemma enhanced_query_logs:
  "length (query_logs st) \<le> 100 \<Longrightarrow>
   query_logs (snd (enhanced_query run amb request st)) =
     lastn 100 (query_logs st @ answered_logs run (qa_chain st) [(amb, request)])"
  by (auto simp: enhanced_query_def Let_def lastn_short split: option.splits sum.splits)

lemma enhanced_query_chain:
  "qa_chain (snd (enhanced_query run amb request st)) = qa_chain st"
  by (auto simp: enhanced_query_def Let_def split: option.splits sum.splits)

lemma answered_logs_append:
  "answered_logs run c (xs @ ys) = answered_logs run c xs @ answered_logs run c ys"
  by (induction xs) (auto split: option.splits sum.splits)

lemma enhanced_queries_logs:
  "length (query_logs st) \<le> 100 \<Longrightarrow>
   query_logs (snd (enhanced_queries run ops st)) =
     lastn 100 (query_logs st @ answered_logs run (qa_chain st) ops)"
proof (induction ops arbitrary: st)
  case Nil
  then show ?case by (simp add: lastn_short)
next
  case (Cons op ops)
  obtain amb request where op: "op = (amb, request)" by (cases op) auto
  let ?st' = "snd (enhanced_query run amb request st)"
  have h: "query_logs ?st' =
      lastn 100 (query_logs st @ answered_logs run (qa_chain st) [(amb, request)])"
    using Cons.prems by (rule enhanced_query_logs)
  then have len: "length (query_logs ?st') \<le> 100" by (simp add: length_lastn)
  have "query_logs (snd (enhanced_queries run (op # ops) st)) =
        query_logs (snd (enhanced_queries run ops ?st'))"
    by (simp add: op split: prod.splits)
  also have "\<dots> = lastn 100 (query_logs ?st' @ answered_logs run (qa_chain ?st') ops)"
    using len by (rule Cons.IH)
  also have "\<dots> = lastn 100 (query_logs st @ answered_logs run (qa_chain st) (op # ops))"
    unfolding h enhanced_query_chain lastn_lastn_append
    using answered_logs_append [of run "qa_chain st" "[(amb, request)]" ops]
    by (simp add: op)
  finally show ?case .
qed

text \<open>
  Claim C9. After any sequence of query operations on a history of at most 100 records,
  the history has at most 100 records and is exactly the last 100 of everything appended
  so far, so the record evicted at the cap is always the oldest. This holds for
  \<open>query_history\<close> of enhanced\_main.py (\<open>pop(0)\<close>) and for \<open>query_logs\<close> of
  main\_v2.py (\<open>query_logs[-100:]\<close>).
\<close>

theorem query_history_capped:
  assumes "length (query_history st) \<le> 100" and "length (query_logs u) \<le> 100"
  shows "length (query_history (snd (process_queries http_str rag_query ops st))) \<le> 100
       \<and> query_history (snd (process_queries http_str rag_query ops st)) =
           lastn 100 (query_history st @ answered_records rag_query (rag_pipeline st) ops)
       \<and> length (query_logs (snd (enhanced_queries run ops' u))) \<le> 100
       \<and> query_logs (snd (enhanced_queries run ops' u)) =
           lastn 100 (query_logs u @ answered_logs run (qa_chain u) ops')"
  using process_queries_history [OF assms(1), of http_str rag_query ops]
        enhanced_queries_logs [OF assms(2), of run ops']
  by (simp add: length_lastn)

theorem query_history_capped_witness:
  "length (query_history full_em_state) \<le> 100
   \<and> length (query_logs full_v2_state) \<le> 100
   \<and> query_history (snd (process_queries sample_http_str sample_rag_query
        [(sample_amb, sample_request, None)] full_em_state)) =
      replicate 99 (old_record ''later'') @
        [\<lparr>rec_query = ''q'', rec_response = ''re: q'', rec_timestamp = ''t1'',
          rec_processing_time = 2, rec_user = None\<rparr>]
   \<and> query_logs (snd (enhanced_queries sample_run
        [(sample_amb, sample_request_v2)] full_v2_state)) =
      replicate 99 (old_log ''later'') @
        [\<lparr>log_query_id = ''u1'', log_question = ''q'', log_answer = ''re: q'',
          log_llm_provider = Some ''openai'', log_processing_time = 2, log_timestamp = ''t1''\<rparr>]"
proof -
  have h1: "length (query_history full_em_state) \<le> 100"
    by (simp add: full_em_state_def)
  have h2: "length (query_logs full_v2_state) \<le> 100"
    by (simp add: full_v2_state_def)
  show ?thesis
    using h1 h2 query_history_capped [OF h1 h2, of sample_http_str sample_rag_query
        "[(sample_amb, sample_request, None)]" sample_run "[(sample_amb, sample_request_v2)]"]
    by (simp add: full_em_state_def full_v2_state_def lastn_def sample_rag_query_def
        sample_run_def sample_request_def sample_request_v2_def sample_amb_def
        query_record_of_def query_log_of_def dict_get_def)
qed

subsection \<open>Ingestion rebuilds the index\<close>




lemma dict_set_has: "(name, v) \<in> set (dict_set name v dir)"
  by (induction dir) auto







end
